theory Spec2Isabelle
  imports Main "HOL-Library.Sublist"
begin

section \<open>JavaScript values\<close>

text \<open>
  The candidate configuration is whatever the configuration module exports, so the validator
  of \<^verbatim>\<open>packages/cli/config.ts\<close> receives an arbitrary JavaScript value (its parameter has
  type \<^verbatim>\<open>any\<close>). Values are modelled as data: the primitives, arrays, and objects given by
  their own data properties in insertion order (the first binding of a key is the property).
  An object is an ordinary object (prototype \<^verbatim>\<open>Object.prototype\<close>), an object without a
  prototype (\<^verbatim>\<open>Object.create(null)\<close>), or a function object, which is an opaque reference
  to code of the configuration module (a component, a plugin). The own properties of an
  array or a string are its indices and \<^verbatim>\<open>length\<close>. Accessor properties, proxies, symbols
  and longer prototype chains are outside the model; numbers are integers.
\<close>

datatype objkind = Ordinary | NullProto | Function nat

datatype jsval =
    JUndefined
  | JNull
  | JBool bool
  | JNum int
  | JStr string
  | JArr "jsval list"
  | JObj objkind "(string \<times> jsval) list"

datatype jsError = TypeError | Thrown string

text \<open>
  The completion of an expression: a value, a thrown exception, or no completion at all,
  when a function of the configuration module that the expression calls does not return.
\<close>

datatype 'a completion = Normal 'a | Throw jsError | NoReturn

text \<open>
  What the functions of the configuration module do is not part of this file: the
  completion of a call, given the function, its receiver and its arguments, is a parameter
  of the model.
\<close>

type_synonym usercode = "nat \<Rightarrow> jsval \<Rightarrow> jsval list \<Rightarrow> jsval completion"

text \<open>\<^verbatim>\<open>ToBoolean\<close>, which the operator \<^verbatim>\<open>!\<close> applies to its operand.\<close>

fun truthy :: "jsval \<Rightarrow> bool" where
  "truthy JUndefined = False"
| "truthy JNull = False"
| "truthy (JBool b) = b"
| "truthy (JNum n) = (n \<noteq> 0)"
| "truthy (JStr s) = (s \<noteq> [])"
| "truthy v = True"

definition isDigit :: "char \<Rightarrow> bool" where
  "isDigit c = (c \<in> set ''0123456789'')"

text \<open>A property key that is a canonical array index (\<^verbatim>\<open>"0"\<close>, \<^verbatim>\<open>"17"\<close>; not \<^verbatim>\<open>"01"\<close>).\<close>

definition arrayIndex :: "string \<Rightarrow> nat option" where
  "arrayIndex k =
     (if k \<noteq> [] \<and> list_all isDigit k \<and> (k = ''0'' \<or> hd k \<noteq> CHR ''0'')
      then Some (foldl (\<lambda>n c. 10 * n + (of_char c - 48)) 0 k)
      else None)"

text \<open>Whether \<open>k\<close> is an own property of the object that \<open>v\<close> is (or is boxed to).\<close>

fun hasOwn :: "jsval \<Rightarrow> string \<Rightarrow> bool" where
  "hasOwn (JObj kind ps) k = (k \<in> set (map fst ps))"
| "hasOwn (JArr xs) k =
     (k = ''length'' \<or> (case arrayIndex k of Some i \<Rightarrow> i < length xs | None \<Rightarrow> False))"
| "hasOwn (JStr s) k =
     (k = ''length'' \<or> (case arrayIndex k of Some i \<Rightarrow> i < length s | None \<Rightarrow> False))"
| "hasOwn v k = False"

text \<open>
  The call \<^verbatim>\<open>v.hasOwnProperty(k)\<close> as the condition \<^verbatim>\<open>!v.hasOwnProperty(k)\<close> reads it: the
  truth value of its result. Reading the method of \<^verbatim>\<open>undefined\<close> or \<^verbatim>\<open>null\<close> throws a
  TypeError. An own property named \<^verbatim>\<open>hasOwnProperty\<close> shadows the built-in: calling it
  throws a TypeError unless it is a function, and then that function of the configuration
  module is called with \<open>v\<close> as its receiver and the key as its argument. An object without
  a prototype has no such method, so the call throws a TypeError. Everything else reaches
  \<^verbatim>\<open>Object.prototype.hasOwnProperty\<close>.
\<close>

fun hasOwnProperty :: "usercode \<Rightarrow> jsval \<Rightarrow> string \<Rightarrow> bool completion" where
  "hasOwnProperty call JUndefined k = Throw TypeError"
| "hasOwnProperty call JNull k = Throw TypeError"
| "hasOwnProperty call (JObj kind ps) k =
     (case map_of ps ''hasOwnProperty'' of
        Some (JObj (Function f) fps) \<Rightarrow>
          (case call f (JObj kind ps) [JStr k] of
             Normal result \<Rightarrow> Normal (truthy result)
           | Throw e \<Rightarrow> Throw e
           | NoReturn \<Rightarrow> NoReturn)
      | Some other \<Rightarrow> Throw TypeError
      | None \<Rightarrow> if kind = NullProto then Throw TypeError else Normal (hasOwn (JObj kind ps) k))"
| "hasOwnProperty call v k = Normal (hasOwn v k)"

text \<open>
  The property read \<^verbatim>\<open>v.k\<close> (or \<^verbatim>\<open>v[k]\<close>) for a name \<open>k\<close> that no built-in prototype
  defines, which holds of every name this file and the schema read: \<^verbatim>\<open>default\<close>,
  \<^verbatim>\<open>components\<close>, \<^verbatim>\<open>configuration\<close>, \<^verbatim>\<open>quartzVersion\<close>, \<^verbatim>\<open>name\<close>, \<^verbatim>\<open>ignorePatterns\<close>.
\<close>

fun get :: "jsval \<Rightarrow> string \<Rightarrow> jsval completion" where
  "get JUndefined k = Throw TypeError"
| "get JNull k = Throw TypeError"
| "get (JObj kind ps) k = Normal (case map_of ps k of Some v \<Rightarrow> v | None \<Rightarrow> JUndefined)"
| "get (JArr xs) k =
     Normal (if k = ''length'' then JNum (int (length xs))
             else case arrayIndex k of
                    Some i \<Rightarrow> if i < length xs then xs ! i else JUndefined
                  | None \<Rightarrow> JUndefined)"
| "get (JStr s) k =
     Normal (if k = ''length'' then JNum (int (length s))
             else case arrayIndex k of
                    Some i \<Rightarrow> if i < length s then JStr [s ! i] else JUndefined
                  | None \<Rightarrow> JUndefined)"
| "get v k = Normal JUndefined"

section \<open>The schema library (myzod)\<close>

text \<open>
  \<^verbatim>\<open>configSchema\<close> is built from three constructors of the third-party library myzod,
  which is not part of the repository. They are modelled after the library's types:
  \<^verbatim>\<open>parse\<close> throws a \<^verbatim>\<open>ValidationError\<close> or returns the value, and \<^verbatim>\<open>try\<close> returns the
  error instead of throwing it.
  \<^item> \<^verbatim>\<open>string()\<close> accepts exactly the values whose \<^verbatim>\<open>typeof\<close> is \<^verbatim>\<open>"string"\<close>.
  \<^item> \<^verbatim>\<open>array(schema)\<close> accepts exactly the values for which \<^verbatim>\<open>Array.isArray\<close> holds
    and whose elements the element schema accepts, checked in index order.
  \<^item> \<^verbatim>\<open>object(shape, opts)\<close> rejects a value whose \<^verbatim>\<open>typeof\<close> is not \<^verbatim>\<open>"object"\<close>,
    \<^verbatim>\<open>null\<close> and arrays; then, unless the option \<^verbatim>\<open>allowUnknown\<close> is set, it rejects a
    value that has an enumerable key outside the shape (\<^verbatim>\<open>unexpected keys on object\<close>);
    then it parses \<^verbatim>\<open>value[key]\<close> for each key of the shape in order and throws the
    first error. \<^verbatim>\<open>allowUnknown\<close> is false when no options are passed.
  The text of an error's message is not modelled: an error carries the path to the
  offending value and what was wrong with it.
\<close>

datatype pathelem = Key string | Index nat

datatype issue = ExpectedString | ExpectedArray | ExpectedObject | UnexpectedKeys "string list"

datatype verror = ValidationError "pathelem list" issue

type_synonym schema = "jsval \<Rightarrow> verror + jsval"

definition t_string :: schema where
  "t_string v = (case v of JStr s \<Rightarrow> Inr v | _ \<Rightarrow> Inl (ValidationError [] ExpectedString))"

fun parseElements :: "schema \<Rightarrow> nat \<Rightarrow> jsval list \<Rightarrow> verror option" where
  "parseElements elem i [] = None"
| "parseElements elem i (x # xs) =
     (case elem x of
        Inl (ValidationError path what) \<Rightarrow> Some (ValidationError (Index i # path) what)
      | Inr y \<Rightarrow> parseElements elem (Suc i) xs)"

definition t_array :: "schema \<Rightarrow> schema" where
  "t_array elem v =
     (case v of
        JArr xs \<Rightarrow> (case parseElements elem 0 xs of Some e \<Rightarrow> Inl e | None \<Rightarrow> Inr v)
      | _ \<Rightarrow> Inl (ValidationError [] ExpectedArray))"

fun parseFields :: "(string \<times> schema) list \<Rightarrow> (string \<times> jsval) list \<Rightarrow> verror option" where
  "parseFields [] ps = None"
| "parseFields ((k, sch) # shape) ps =
     (case sch (case map_of ps k of Some v \<Rightarrow> v | None \<Rightarrow> JUndefined) of
        Inl (ValidationError path what) \<Rightarrow> Some (ValidationError (Key k # path) what)
      | Inr y \<Rightarrow> parseFields shape ps)"

definition t_object :: "bool \<Rightarrow> (string \<times> schema) list \<Rightarrow> schema" where
  "t_object allowUnknown shape v =
     (case v of
        JObj (Function f) ps \<Rightarrow> Inl (ValidationError [] ExpectedObject)
      | JObj kind ps \<Rightarrow>
          (let illegalKeys = filter (\<lambda>k. k \<notin> set (map fst shape)) (remdups (map fst ps))
           in if \<not> allowUnknown \<and> illegalKeys \<noteq> []
              then Inl (ValidationError [] (UnexpectedKeys illegalKeys))
              else case parseFields shape ps of Some e \<Rightarrow> Inl e | None \<Rightarrow> Inr v)
      | _ \<Rightarrow> Inl (ValidationError [] ExpectedObject))"

definition schema_try :: "schema \<Rightarrow> jsval \<Rightarrow> verror + jsval" where
  "schema_try sch v = sch v"

section \<open>The validator\<close>

text \<open>\<^verbatim>\<open>configSchema\<close> (lines 16-20): \<^verbatim>\<open>t.object\<close> is called with the shape and no options.\<close>

definition configSchema :: schema where
  "configSchema =
     t_object False
       [(''quartzVersion'', t_string),
        (''name'', t_string),
        (''ignorePatterns'', t_array t_string)]"

text \<open>
  What the program prints. \<^verbatim>\<open>chalk\<close> colours a piece of text; a template literal
  interpolates a value or the message of a validation error.
\<close>

datatype colour = Red | Yellow | Grey

datatype piece = Plain string | Styled colour string | Interp jsval | Message verror

datatype event =
    ConsoleLog "piece list"
  | ConsoleError "piece list"
  | EsbuildBuild string
  | RequireFromString string string

text \<open>
  The three warnings of \<^verbatim>\<open>isValidConfig\<close> (lines 37, 45 and 52), named after the error
  kinds of the specification.
\<close>

datatype diagnostic = MissingKey string | MissingComponent string | SchemaValidation verror

fun warning :: "diagnostic \<Rightarrow> piece list" where
  "warning (MissingKey key) =
     [Styled Yellow ''Warning:'', Plain '' Configuration is missing required key `'',
      Plain key, Plain ''`'']"
| "warning (MissingComponent key) =
     [Styled Yellow ''Warning:'', Plain '' Configuration is missing required component `'',
      Plain key, Plain ''`'']"
| "warning (SchemaValidation e) =
     [Styled Yellow ''Warning:'', Plain '' Configuration doens't match schema. '', Message e]"

definition requiredKeys :: "string list" where
  "requiredKeys = [''plugins'', ''configuration'', ''components'']"

definition requiredComponents :: "string list" where
  "requiredComponents = [''pageSingle'', ''pageList'', ''pageHome'', ''document'']"

text \<open>
  The loop \<^verbatim>\<open>for (const key of keys) if (!v.hasOwnProperty(key)) ...\<close>: the first key
  for which the call answers false, if any.
\<close>

fun firstMissing :: "usercode \<Rightarrow> jsval \<Rightarrow> string list \<Rightarrow> string option completion" where
  "firstMissing call v [] = Normal None"
| "firstMissing call v (key # keys) =
     (case hasOwnProperty call v key of
        Normal True \<Rightarrow> firstMissing call v keys
      | Normal False \<Rightarrow> Normal (Some key)
      | Throw e \<Rightarrow> Throw e
      | NoReturn \<Rightarrow> NoReturn)"

text \<open>\<^verbatim>\<open>isValidConfig\<close> (lines 33-57): its result and what it printed.\<close>

definition isValidConfig :: "usercode \<Rightarrow> jsval \<Rightarrow> bool completion \<times> event list" where
  "isValidConfig call cfg =
     (case firstMissing call cfg requiredKeys of
        Throw e \<Rightarrow> (Throw e, [])
      | NoReturn \<Rightarrow> (NoReturn, [])
      | Normal (Some key) \<Rightarrow> (Normal False, [ConsoleLog (warning (MissingKey key))])
      | Normal None \<Rightarrow>
          (case get cfg ''components'' of
             Throw e \<Rightarrow> (Throw e, [])
           | NoReturn \<Rightarrow> (NoReturn, [])
           | Normal components \<Rightarrow>
               (case firstMissing call components requiredComponents of
                  Throw e \<Rightarrow> (Throw e, [])
                | NoReturn \<Rightarrow> (NoReturn, [])
                | Normal (Some key) \<Rightarrow>
                    (Normal False, [ConsoleLog (warning (MissingComponent key))])
                | Normal None \<Rightarrow>
                    (case get cfg ''configuration'' of
                       Throw e \<Rightarrow> (Throw e, [])
                     | NoReturn \<Rightarrow> (NoReturn, [])
                     | Normal configuration \<Rightarrow>
                         (case schema_try configSchema configuration of
                            Inl e \<Rightarrow> (Normal False, [ConsoleLog (warning (SchemaValidation e))])
                          | Inr y \<Rightarrow> (Normal True, []))))))"

section \<open>Paths\<close>

text \<open>
  \<^verbatim>\<open>path.join\<close> and \<^verbatim>\<open>path.resolve\<close> are Node's, in their POSIX form. Node normalises a
  path segment by segment: empty segments and \<^verbatim>\<open>.\<close> are dropped, \<^verbatim>\<open>..\<close> removes the
  segment before it, and \<^verbatim>\<open>..\<close> at the start is kept only in a relative path.
  \<^verbatim>\<open>path.resolve\<close> prefixes the working directory of the process to a relative path, so
  the working directory is an argument here.
\<close>

fun splitSlash :: "string \<Rightarrow> string list" where
  "splitSlash [] = [[]]"
| "splitSlash (c # cs) =
     (if c = CHR ''/'' then [] # splitSlash cs
      else case splitSlash cs of s # ss \<Rightarrow> (c # s) # ss | [] \<Rightarrow> [[c]])"

fun joinSlash :: "string list \<Rightarrow> string" where
  "joinSlash [] = []"
| "joinSlash [s] = s"
| "joinSlash (s # t # ss) = s @ ''/'' @ joinSlash (t # ss)"

text \<open>One segment of \<^verbatim>\<open>normalizeString\<close>; the result so far is kept last segment first.\<close>

fun normalizeStep :: "bool \<Rightarrow> string list \<Rightarrow> string \<Rightarrow> string list" where
  "normalizeStep allowAboveRoot res seg =
     (if seg = [] \<or> seg = ''.'' then res
      else if seg = ''..'' then
        (case res of
           [] \<Rightarrow> if allowAboveRoot then [''..''] else []
         | s # ss \<Rightarrow> if s = ''..'' then (if allowAboveRoot then ''..'' # res else res) else ss)
      else seg # res)"

definition normalizeString :: "string \<Rightarrow> bool \<Rightarrow> string" where
  "normalizeString path allowAboveRoot =
     joinSlash (rev (foldl (normalizeStep allowAboveRoot) [] (splitSlash path)))"

definition path_normalize :: "string \<Rightarrow> string" where
  "path_normalize path =
     (if path = [] then ''.''
      else
        let isAbsolute = (hd path = CHR ''/'');
            trailingSeparator = (last path = CHR ''/'');
            p = normalizeString path (\<not> isAbsolute)
        in if p = [] then (if isAbsolute then ''/'' else if trailingSeparator then ''./'' else ''.'')
           else (if isAbsolute then ''/'' else []) @ p @ (if trailingSeparator then ''/'' else []))"

definition path_join :: "string list \<Rightarrow> string" where
  "path_join args =
     (case filter (\<lambda>arg. arg \<noteq> []) args of
        [] \<Rightarrow> ''.''
      | parts \<Rightarrow> path_normalize (joinSlash parts))"

text \<open>
  The loop of \<^verbatim>\<open>path.resolve\<close>: from the last argument towards the first, then the
  working directory, until an absolute path has been prepended.
\<close>

fun resolveLoop :: "string list \<Rightarrow> string \<Rightarrow> string \<times> bool" where
  "resolveLoop [] resolvedPath = (resolvedPath, False)"
| "resolveLoop (path # paths) resolvedPath =
     (if path = [] then resolveLoop paths resolvedPath
      else if hd path = CHR ''/'' then (path @ ''/'' @ resolvedPath, True)
      else resolveLoop paths (path @ ''/'' @ resolvedPath))"

definition path_resolve :: "string \<Rightarrow> string list \<Rightarrow> string" where
  "path_resolve cwd args =
     (case resolveLoop (rev args @ [cwd]) [] of
        (resolvedPath, resolvedAbsolute) \<Rightarrow>
          let p = normalizeString resolvedPath (\<not> resolvedAbsolute)
          in if resolvedAbsolute then ''/'' @ p else if p \<noteq> [] then p else ''.'')"

definition QUARTZ :: string where
  "QUARTZ = ''quartz''"

definition QUARTZ_CONFIG_NAME :: string where
  "QUARTZ_CONFIG_NAME = ''quartz.config.js''"

definition getQuartzPath :: "string \<Rightarrow> string \<Rightarrow> string" where
  "getQuartzPath cwd directory = path_resolve cwd [path_join [directory, QUARTZ]]"

definition getConfigFilePath :: "string \<Rightarrow> string \<Rightarrow> string" where
  "getConfigFilePath cwd directory =
     path_resolve cwd [path_join [directory, QUARTZ, QUARTZ_CONFIG_NAME]]"

section \<open>Loading the configuration\<close>

text \<open>
  What \<^verbatim>\<open>readConfigFile\<close> finds outside this file: whether a file exists, what esbuild
  makes of an entry point (the reason of its rejection, or the text of the one output
  file), what executing a bundle yields (an exception, or the exports of the module), what
  the functions of the loaded module do when called, the version of \<^verbatim>\<open>package.json\<close> and
  the working directory.
\<close>

record world =
  existsSync :: "string \<Rightarrow> bool"
  esbuild_build :: "string \<Rightarrow> string + string"
  requireFromString :: "string \<Rightarrow> string \<Rightarrow> jsError + jsval"
  callFunction :: usercode
  version :: string
  cwd :: string

text \<open>
  How a call of \<^verbatim>\<open>readConfigFile\<close> ends: the promise is fulfilled with a value, the
  process exits with a status, the promise is rejected with an exception, or it is never
  settled because a function of the configuration module did not return.
\<close>

datatype outcome = Returned jsval | Exit nat | Rejected jsError | Hangs

definition versionWarning :: "jsval \<Rightarrow> string \<Rightarrow> event list" where
  "versionWarning quartzVersion v =
     [ConsoleLog [Styled Yellow ''Warning:'', Plain '' version in configuration ('',
                  Interp quartzVersion, Plain '') is different from current Quartz version ('',
                  Plain v, Plain ''). Proceed with caution!''],
      ConsoleLog [Plain ''hint: visit https://github.com/jackyzha0/quartz/blob/v4/config.ts to see the most up-to-date schema'']]"

text \<open>Lines 99-104: the version check, once the validator has accepted \<open>cfg\<close>.\<close>

definition checkVersion :: "world \<Rightarrow> jsval \<Rightarrow> event list \<Rightarrow> outcome \<times> event list" where
  "checkVersion w cfg trace =
     (case get cfg ''configuration'' of
        Throw e \<Rightarrow> (Rejected e, trace)
      | NoReturn \<Rightarrow> (Hangs, trace)
      | Normal configuration \<Rightarrow>
          (case get configuration ''quartzVersion'' of
             Throw e \<Rightarrow> (Rejected e, trace)
           | NoReturn \<Rightarrow> (Hangs, trace)
           | Normal quartzVersion \<Rightarrow>
               (Returned cfg,
                trace @ (if quartzVersion \<noteq> JStr (version w)
                         then versionWarning quartzVersion (version w) else []))))"

text \<open>Lines 92-104: from the bundle to the result.\<close>

definition loadAndValidate :: "world \<Rightarrow> string \<Rightarrow> string \<Rightarrow> outcome \<times> event list" where
  "loadAndValidate w fp bundle =
     (let trace = [EsbuildBuild fp, RequireFromString bundle fp]
      in case requireFromString w bundle fp of
           Inl e \<Rightarrow> (Rejected e, trace)
         | Inr exports \<Rightarrow>
             (case get exports ''default'' of
                Throw e \<Rightarrow> (Rejected e, trace)
              | NoReturn \<Rightarrow> (Hangs, trace)
              | Normal cfg \<Rightarrow>
                  (case isValidConfig (callFunction w) cfg of
                     (Throw e, printed) \<Rightarrow> (Rejected e, trace @ printed)
                   | (NoReturn, printed) \<Rightarrow> (Hangs, trace @ printed)
                   | (Normal False, printed) \<Rightarrow>
                       (Exit 1,
                        trace @ printed @
                        [ConsoleError [Styled Red ''Invalid Quartz configuration'']])
                   | (Normal True, printed) \<Rightarrow> checkVersion w cfg (trace @ printed))))"

text \<open>\<^verbatim>\<open>readConfigFile\<close> (lines 70-105).\<close>

definition readConfigFile :: "world \<Rightarrow> string \<Rightarrow> outcome \<times> event list" where
  "readConfigFile w directory =
     (let fp = path_resolve (cwd w) [path_join [directory, QUARTZ, QUARTZ_CONFIG_NAME]]
      in if \<not> existsSync w fp then
           (Exit 1,
            [ConsoleError [Styled Red ''Couldn't find Quartz configuration:'', Plain '' '', Plain fp],
             ConsoleLog [Plain ''hint: you can initialize a new Quartz with `quartz new`'']])
         else
           case esbuild_build w fp of
             Inl err \<Rightarrow>
               (Exit 1,
                [EsbuildBuild fp,
                 ConsoleError [Styled Red ''Couldn't parse Quartz configuration:'', Plain '' '', Plain fp],
                 ConsoleLog [Plain ''Reason: '', Styled Grey err],
                 ConsoleLog [Plain ''hint: make sure all the required dependencies are installed (run `npm install` in the `quartz` folder)'']])
           | Inr bundle \<Rightarrow> loadAndValidate w fp bundle)"

section \<open>Scaffolding\<close>

text \<open>
  \<^verbatim>\<open>String.prototype.replace\<close> with a string pattern replaces the first occurrence of the
  pattern, and expands the replacement text: \<^verbatim>\<open>$$\<close> stands for a dollar sign, \<^verbatim>\<open>$&\<close>
  for the matched text, \<^verbatim>\<open>$`\<close> for the text before the match and \<^verbatim>\<open>$'\<close> for the text
  after it. A string pattern has no capture groups, so every other use of the dollar
  sign stands for itself.
\<close>

fun indexOf :: "string \<Rightarrow> string \<Rightarrow> nat option" where
  "indexOf [] pat = (if pat = [] then Some 0 else None)"
| "indexOf (c # cs) pat =
     (if prefix pat (c # cs) then Some 0 else map_option Suc (indexOf cs pat))"

fun getSubstitution :: "string \<Rightarrow> string \<Rightarrow> string \<Rightarrow> string \<Rightarrow> string" where
  "getSubstitution matched preceding following [] = []"
| "getSubstitution matched preceding following [c] = [c]"
| "getSubstitution matched preceding following (c # d # t) =
     (if c = CHR ''$'' then
        (if d = CHR ''$'' then CHR ''$'' # getSubstitution matched preceding following t
         else if d = CHR ''&'' then matched @ getSubstitution matched preceding following t
         else if d = CHR 0x60 then preceding @ getSubstitution matched preceding following t
         else if d = CHR 0x27 then following @ getSubstitution matched preceding following t
         else c # getSubstitution matched preceding following (d # t))
      else c # getSubstitution matched preceding following (d # t))"

definition replace :: "string \<Rightarrow> string \<Rightarrow> string \<Rightarrow> string" where
  "replace s pat replacement =
     (case indexOf s pat of
        None \<Rightarrow> s
      | Some i \<Rightarrow>
          take i s
          @ getSubstitution pat (take i s) (drop (i + length pat) s) replacement
          @ drop (i + length pat) s)"

definition token :: "string \<Rightarrow> string" where
  "token k = ''{{'' @ k @ ''}}''"

text \<open>
  The loop of lines 117-119 over \<^verbatim>\<open>Object.entries(cfg)\<close>, the key/value pairs of the seed
  in the order of the object; the values are strings, as \<^verbatim>\<open>UserProvidedConfig\<close> types them.
\<close>

fun substitute :: "(string \<times> string) list \<Rightarrow> string \<Rightarrow> string" where
  "substitute [] s = s"
| "substitute ((k, v) # entries) s = substitute entries (replace s (token k) v)"

text \<open>
  \<^verbatim>\<open>templateQuartzFolder\<close> (lines 107-121) on a file system that maps the path of a file to
  its text. The recursive copy is an argument; reading a file that does not exist fails.
\<close>

datatype ioError = CopyFailed | NoSuchFile string

type_synonym files = "string \<Rightarrow> string option"

definition templateQuartzFolder ::
  "(string \<Rightarrow> string \<Rightarrow> files \<Rightarrow> ioError + files) \<Rightarrow> string \<Rightarrow> string \<Rightarrow> files
     \<Rightarrow> string \<Rightarrow> (string \<times> string) list \<Rightarrow> ioError + files" where
  "templateQuartzFolder cp dirname workdir fs directory cfg =
     (let parentFolder = path_join [dirname, ''template''];
          quartzDirectory = getQuartzPath workdir directory
      in case cp parentFolder quartzDirectory fs of
           Inl e \<Rightarrow> Inl e
         | Inr copied \<Rightarrow>
             (let configFilePath = getConfigFilePath workdir directory
              in case copied configFilePath of
                   None \<Rightarrow> Inl (NoSuchFile configFilePath)
                 | Some s \<Rightarrow> Inr (copied(configFilePath \<mapsto> substitute cfg s))))"

section \<open>The validator as the specification words it\<close>

text \<open>
  A value answers the question \<^verbatim>\<open>hasOwnProperty\<close> with the built-in method when it is
  neither \<^verbatim>\<open>undefined\<close> nor \<^verbatim>\<open>null\<close>, has a prototype, and does not shadow the method.
\<close>

fun answers :: "jsval \<Rightarrow> bool" where
  "answers JUndefined = False"
| "answers JNull = False"
| "answers (JObj kind ps) = (map_of ps ''hasOwnProperty'' = None \<and> kind \<noteq> NullProto)"
| "answers v = True"

text \<open>The value of a property, \<^verbatim>\<open>undefined\<close> where there is none.\<close>

definition propertyOf :: "jsval \<Rightarrow> string \<Rightarrow> jsval" where
  "propertyOf v k = (case get v k of Normal x \<Rightarrow> x | _ \<Rightarrow> JUndefined)"

text \<open>
  The specification's validator: the top-level keys first, then the component slots, then
  the schema of \<^verbatim>\<open>configuration\<close>; the first violation found is the one reported.
\<close>

definition firstViolation :: "jsval \<Rightarrow> diagnostic option" where
  "firstViolation cfg =
     (case find (\<lambda>key. \<not> hasOwn cfg key) [''plugins'', ''configuration'', ''components''] of
        Some key \<Rightarrow> Some (MissingKey key)
      | None \<Rightarrow>
          (case find (\<lambda>key. \<not> hasOwn (propertyOf cfg ''components'') key)
                  [''pageSingle'', ''pageList'', ''pageHome'', ''document''] of
             Some key \<Rightarrow> Some (MissingComponent key)
           | None \<Rightarrow>
               (case configSchema (propertyOf cfg ''configuration'') of
                  Inl e \<Rightarrow> Some (SchemaValidation e)
                | Inr y \<Rightarrow> None)))"

text \<open>What the validator returns and prints for a violation, or for none.\<close>

fun report :: "diagnostic option \<Rightarrow> bool completion \<times> event list" where
  "report None = (Normal True, [])"
| "report (Some d) = (Normal False, [ConsoleLog (warning d)])"

section \<open>Examples\<close>

text \<open>
  A configuration module with a valid default export, and a project \<^verbatim>\<open>site\<close> under
  \<^verbatim>\<open>/home/user\<close> whose configuration file exists, compiles and exports a given value; the
  functions of the module return \<^verbatim>\<open>true\<close>; the running tool has version 4.0.0.
\<close>

definition exampleComponents :: jsval where
  "exampleComponents =
     JObj Ordinary
       [(''pageSingle'', JObj (Function 0) []), (''pageList'', JObj (Function 1) []),
        (''pageHome'', JObj (Function 2) []), (''document'', JObj (Function 3) [])]"

definition exampleConfiguration :: "string \<Rightarrow> jsval" where
  "exampleConfiguration quartzVersion =
     JObj Ordinary
       [(''quartzVersion'', JStr quartzVersion), (''name'', JStr ''My Site''),
        (''ignorePatterns'', JArr [])]"

definition exampleConfig :: "string \<Rightarrow> jsval" where
  "exampleConfig quartzVersion =
     JObj Ordinary
       [(''plugins'', JArr []), (''configuration'', exampleConfiguration quartzVersion),
        (''components'', exampleComponents)]"

definition exampleWorld :: "jsval \<Rightarrow> world" where
  "exampleWorld exported =
     \<lparr>existsSync = (\<lambda>p. p = ''/home/user/site/quartz/quartz.config.js''),
      esbuild_build = (\<lambda>p. Inr ''bundle''),
      requireFromString = (\<lambda>bundle p. Inr (JObj Ordinary [(''default'', exported)])),
      callFunction = (\<lambda>f receiver args. Normal (JBool True)),
      version = ''4.0.0'',
      cwd = ''/home/user''\<rparr>"

text \<open>
  A candidate with its top-level keys whose \<^verbatim>\<open>components\<close>, an object of the given kind,
  lacks \<^verbatim>\<open>pageHome\<close>; a candidate of the given kind without \<^verbatim>\<open>plugins\<close>.
\<close>

definition missingPageHome :: "objkind \<Rightarrow> jsval" where
  "missingPageHome kind =
     JObj Ordinary
       [(''plugins'', JArr []), (''configuration'', exampleConfiguration ''4.0.0''),
        (''components'',
         JObj kind
           [(''pageSingle'', JObj (Function 0) []), (''pageList'', JObj (Function 1) []),
            (''document'', JObj (Function 3) [])])]"

definition missingPlugins :: "objkind \<Rightarrow> jsval" where
  "missingPlugins kind =
     JObj kind
       [(''configuration'', exampleConfiguration ''4.0.0''), (''components'', exampleComponents)]"

text \<open>
  The default export of
  \<^verbatim>\<open>export default { hasOwnProperty: () => true, configuration: { quartzVersion: "4.0.0", name: "My Site", ignorePatterns: [] }, components: { hasOwnProperty: () => true } }\<close>.
\<close>

definition shadowingConfig :: jsval where
  "shadowingConfig =
     JObj Ordinary
       [(''hasOwnProperty'', JObj (Function 0) []),
        (''configuration'', exampleConfiguration ''4.0.0''),
        (''components'', JObj Ordinary [(''hasOwnProperty'', JObj (Function 0) [])])]"

text \<open>A candidate whose \<^verbatim>\<open>ignorePatterns\<close> is a string, and a \<^verbatim>\<open>configuration\<close> with a fourth field.\<close>

definition patternsAsString :: jsval where
  "patternsAsString =
     JObj Ordinary
       [(''plugins'', JArr []),
        (''configuration'',
         JObj Ordinary
           [(''quartzVersion'', JStr ''4.0.0''), (''name'', JStr ''My Site''),
            (''ignorePatterns'', JStr ''private'')]),
        (''components'', exampleComponents)]"

definition extraField :: jsval where
  "extraField =
     JObj Ordinary
       [(''quartzVersion'', JStr ''4.0.0''), (''name'', JStr ''My Site''),
        (''ignorePatterns'', JArr []), (''baseUrl'', JStr ''example.org'')]"

text \<open>A path whose last segment is \<^verbatim>\<open>quartz\<close>.\<close>

definition endsInQuartz :: "string \<Rightarrow> bool" where
  "endsInQuartz p = (p = ''quartz'' \<or> (\<exists>z. p = z @ ''/quartz''))"

section \<open>Properties of the validator\<close>

lemma hasOwnProperty_answers: "answers v \<Longrightarrow> hasOwnProperty call v k = Normal (hasOwn v k)"
  by (cases v) auto

lemma firstMissing_answers:
  "answers v \<Longrightarrow> firstMissing call v keys = Normal (find (\<lambda>k. \<not> hasOwn v k) keys)"
  by (induction keys) (auto simp: hasOwnProperty_answers)

lemma hasOwn_get_propertyOf: "hasOwn v k \<Longrightarrow> get v k = Normal (propertyOf v k)"
  by (cases v) (auto simp: propertyOf_def)

lemma isValidConfig_report:
  assumes "answers cfg"
    and "list_all (hasOwn cfg) requiredKeys \<Longrightarrow> answers (propertyOf cfg ''components'')"
  shows "isValidConfig call cfg = report (firstViolation cfg)"
proof -
  have fm: "firstMissing call cfg requiredKeys
      = Normal (find (\<lambda>key. \<not> hasOwn cfg key) requiredKeys)"
    using assms(1) by (rule firstMissing_answers)
  show ?thesis
  proof (cases "find (\<lambda>key. \<not> hasOwn cfg key) requiredKeys")
    case (Some key)
    then show ?thesis
      by (simp add: isValidConfig_def fm firstViolation_def requiredKeys_def [symmetric])
  next
    case None
    then have owned: "list_all (hasOwn cfg) requiredKeys"
      by (simp add: find_None_iff list_all_iff)
    then have "answers (propertyOf cfg ''components'')"
      by (rule assms(2))
    then have fc: "firstMissing call (propertyOf cfg ''components'') requiredComponents =
        Normal (find (\<lambda>key. \<not> hasOwn (propertyOf cfg ''components'') key) requiredComponents)"
      by (rule firstMissing_answers)
    from owned have g1: "get cfg ''components'' = Normal (propertyOf cfg ''components'')"
      and g2: "get cfg ''configuration'' = Normal (propertyOf cfg ''configuration'')"
      by (simp_all add: requiredKeys_def hasOwn_get_propertyOf)
    show ?thesis
      using None
      by (simp add: isValidConfig_def fm fc g1 g2 firstViolation_def schema_try_def
          requiredKeys_def [symmetric] requiredComponents_def [symmetric]
          split: option.splits sum.splits)
  qed
qed

lemma isValidConfig_accepted:
  assumes "isValidConfig call cfg = (Normal True, printed)"
  shows "printed = []
     \<and> (\<exists>y. get cfg ''configuration'' = Normal (propertyOf cfg ''configuration'')
            \<and> configSchema (propertyOf cfg ''configuration'') = Inr y)"
  using assms
  by (auto simp: isValidConfig_def schema_try_def propertyOf_def
      split: completion.splits option.splits sum.splits)

lemma t_string_Inr: "t_string v = Inr y \<longleftrightarrow> (\<exists>s. v = JStr s) \<and> y = v"
  by (cases v) (auto simp: t_string_def)

lemma parseElements_string:
  "parseElements t_string i xs = None \<longleftrightarrow> (\<forall>x\<in>set xs. \<exists>s. x = JStr s)"
proof (induction xs arbitrary: i)
  case Nil
  show ?case by simp
next
  case (Cons x xs)
  show ?case
  proof (cases "t_string x")
    case (Inl e)
    then have "\<not> (\<exists>s. x = JStr s)"
      by (cases x) (auto simp: t_string_def)
    with Inl show ?thesis
      by (cases e) auto
  next
    case (Inr y)
    then have "\<exists>s. x = JStr s"
      by (simp add: t_string_Inr)
    with Inr Cons.IH [of "Suc i"] show ?thesis
      by auto
  qed
qed

lemma t_array_string_Inr:
  "t_array t_string v = Inr y \<longleftrightarrow>
     y = v \<and> (\<exists>xs. v = JArr xs \<and> (\<forall>x\<in>set xs. \<exists>s. x = JStr s))"
proof (cases v)
  case (JArr xs)
  then show ?thesis
    using parseElements_string [of 0 xs]
    by (cases "parseElements t_string 0 xs") (auto simp: t_array_def)
qed (auto simp: t_array_def)

lemma t_object_Inr:
  "t_object allowUnknown shape v = Inr y \<longleftrightarrow>
     y = v \<and> (\<exists>kind ps. v = JObj kind ps \<and> (\<forall>f. kind \<noteq> Function f)
        \<and> (allowUnknown \<or> set (map fst ps) \<subseteq> set (map fst shape))
        \<and> parseFields shape ps = None)"
proof (cases v)
  case (JObj kind ps)
  have "filter (\<lambda>k. k \<notin> set (map fst shape)) (remdups (map fst ps)) = [] \<longleftrightarrow>
      set (map fst ps) \<subseteq> set (map fst shape)"
    by (auto simp: filter_empty_conv)
  then show ?thesis
    using JObj by (cases kind) (auto simp: t_object_def Let_def split: option.splits)
qed (auto simp: t_object_def)

lemma configSchema_Inr:
  "configSchema c = Inr y \<longleftrightarrow>
     y = c \<and> (\<exists>kind ps qv nm pats. c = JObj kind ps \<and> (\<forall>f. kind \<noteq> Function f)
        \<and> set (map fst ps) \<subseteq> {''quartzVersion'', ''name'', ''ignorePatterns''}
        \<and> map_of ps ''quartzVersion'' = Some (JStr qv)
        \<and> map_of ps ''name'' = Some (JStr nm)
        \<and> map_of ps ''ignorePatterns'' = Some (JArr pats)
        \<and> (\<forall>p\<in>set pats. \<exists>s. p = JStr s))"
  (is "?l \<longleftrightarrow> ?r")
proof
  assume ?l
  then obtain kind ps where c: "y = c" "c = JObj kind ps" "\<forall>f. kind \<noteq> Function f"
      "set (map fst ps) \<subseteq> {''quartzVersion'', ''name'', ''ignorePatterns''}"
      and pf: "parseFields [(''quartzVersion'', t_string), (''name'', t_string),
        (''ignorePatterns'', t_array t_string)] ps = None"
    unfolding configSchema_def t_object_Inr by auto
  from pf obtain y1 where s1: "t_string (case map_of ps ''quartzVersion'' of Some v \<Rightarrow> v | None \<Rightarrow> JUndefined) = Inr y1"
    by (auto split: sum.splits verror.splits)
  from pf s1 obtain y2 where s2: "t_string (case map_of ps ''name'' of Some v \<Rightarrow> v | None \<Rightarrow> JUndefined) = Inr y2"
    by (auto split: sum.splits verror.splits)
  from pf s1 s2 obtain y3 where s3: "t_array t_string (case map_of ps ''ignorePatterns'' of Some v \<Rightarrow> v | None \<Rightarrow> JUndefined) = Inr y3"
    by (auto split: sum.splits verror.splits)
  from s1 obtain qv where "map_of ps ''quartzVersion'' = Some (JStr qv)"
    by (auto simp: t_string_Inr split: option.splits)
  moreover from s2 obtain nm where "map_of ps ''name'' = Some (JStr nm)"
    by (auto simp: t_string_Inr split: option.splits)
  moreover from s3 obtain pats where "map_of ps ''ignorePatterns'' = Some (JArr pats)"
      "\<forall>p\<in>set pats. \<exists>s. p = JStr s"
    by (auto simp: t_array_string_Inr split: option.splits)
  ultimately show ?r
    using c by blast
next
  assume ?r
  then obtain kind ps qv nm pats where c: "y = c" "c = JObj kind ps" "\<forall>f. kind \<noteq> Function f"
      "set (map fst ps) \<subseteq> {''quartzVersion'', ''name'', ''ignorePatterns''}"
      and f: "map_of ps ''quartzVersion'' = Some (JStr qv)" "map_of ps ''name'' = Some (JStr nm)"
      "map_of ps ''ignorePatterns'' = Some (JArr pats)"
      and p: "\<forall>p\<in>set pats. \<exists>s. p = JStr s"
    by blast
  have "t_array t_string (JArr pats) = Inr (JArr pats)"
    using p by (simp add: t_array_string_Inr)
  then have "parseFields [(''quartzVersion'', t_string), (''name'', t_string),
        (''ignorePatterns'', t_array t_string)] ps = None"
    using f by (simp add: t_string_def)
  then show ?l
    unfolding configSchema_def t_object_Inr using c by auto
qed

lemma example_path: "getConfigFilePath ''/home/user'' ''site'' = ''/home/user/site/quartz/quartz.config.js''"
  by (simp add: getConfigFilePath_def path_resolve_def path_join_def path_normalize_def
      normalizeString_def QUARTZ_def QUARTZ_CONFIG_NAME_def)

lemma example_valid: "isValidConfig call (exampleConfig v) = (Normal True, [])"
  by (simp add: isValidConfig_def exampleConfig_def exampleConfiguration_def exampleComponents_def
      requiredKeys_def requiredComponents_def schema_try_def configSchema_def t_object_def
      t_string_def t_array_def)

lemma firstViolation_None:
  "firstViolation cfg = None \<longleftrightarrow>
     hasOwn cfg ''plugins'' \<and> hasOwn cfg ''configuration'' \<and> hasOwn cfg ''components''
     \<and> hasOwn (propertyOf cfg ''components'') ''pageSingle''
     \<and> hasOwn (propertyOf cfg ''components'') ''pageList''
     \<and> hasOwn (propertyOf cfg ''components'') ''pageHome''
     \<and> hasOwn (propertyOf cfg ''components'') ''document''
     \<and> (\<exists>y. configSchema (propertyOf cfg ''configuration'') = Inr y)"
  by (auto simp: firstViolation_def split: option.splits sum.splits if_splits)

lemma readConfigFile_Returned:
  assumes "readConfigFile w directory = (Returned cfg, trace)"
  shows "\<exists>printed. isValidConfig (callFunction w) cfg = (Normal True, printed)"
  using assms
  by (auto simp: readConfigFile_def loadAndValidate_def checkVersion_def Let_def
      split: if_splits sum.splits completion.splits prod.splits bool.splits)

text \<open>
  A returned object whose checks were answered by the built-in method, its own and that of
  its \<^verbatim>\<open>components\<close>, has the top-level keys and the component slots, and its
  \<^verbatim>\<open>configuration\<close> satisfies the schema.
\<close>

lemma readConfigFile_returns_validated_builtin:
  assumes "readConfigFile w directory = (Returned cfg, trace)"
    and "answers cfg"
    and "answers (propertyOf cfg ''components'')"
  shows "hasOwn cfg ''plugins'' \<and> hasOwn cfg ''configuration'' \<and> hasOwn cfg ''components''
     \<and> hasOwn (propertyOf cfg ''components'') ''pageSingle''
     \<and> hasOwn (propertyOf cfg ''components'') ''pageList''
     \<and> hasOwn (propertyOf cfg ''components'') ''pageHome''
     \<and> hasOwn (propertyOf cfg ''components'') ''document''
     \<and> (\<exists>y. configSchema (propertyOf cfg ''configuration'') = Inr y)"
proof -
  from assms(1) obtain printed where "isValidConfig (callFunction w) cfg = (Normal True, printed)"
    using readConfigFile_Returned by blast
  moreover have "isValidConfig (callFunction w) cfg = report (firstViolation cfg)"
    using assms(2,3) by (intro isValidConfig_report) simp_all
  ultimately have "firstViolation cfg = None"
    by (cases "firstViolation cfg") auto
  then show ?thesis
    by (simp add: firstViolation_None)
qed

text \<open>
  Claim C1 says that an object returned by \<^verbatim>\<open>readConfigFile\<close> has the top-level keys and
  the component slots. The validator asks the candidate itself, with
  \<^verbatim>\<open>cfg.hasOwnProperty(key)\<close> and \<^verbatim>\<open>cfg.components.hasOwnProperty(key)\<close>: a default export
  that defines \<^verbatim>\<open>hasOwnProperty\<close> as a function returning \<^verbatim>\<open>true\<close>, for itself and for its
  \<^verbatim>\<open>components\<close>, passes every check and is returned without \<^verbatim>\<open>plugins\<close> and without any
  of the four slots, and nothing is printed.
\<close>

theorem readConfigFile_returns_unvalidated:
  "readConfigFile (exampleWorld shadowingConfig) ''site'' =
     (Returned shadowingConfig,
      [EsbuildBuild ''/home/user/site/quartz/quartz.config.js'',
       RequireFromString ''bundle'' ''/home/user/site/quartz/quartz.config.js''])
   \<and> \<not> hasOwn shadowingConfig ''plugins''
   \<and> \<not> hasOwn (propertyOf shadowingConfig ''components'') ''pageSingle''
   \<and> \<not> hasOwn (propertyOf shadowingConfig ''components'') ''pageList''
   \<and> \<not> hasOwn (propertyOf shadowingConfig ''components'') ''pageHome''
   \<and> \<not> hasOwn (propertyOf shadowingConfig ''components'') ''document''
   \<and> firstViolation shadowingConfig = Some (MissingKey ''plugins'')"
proof -
  have v: "isValidConfig (\<lambda>f receiver args. Normal (JBool True)) shadowingConfig = (Normal True, [])"
    by (simp add: isValidConfig_def shadowingConfig_def exampleConfiguration_def
        requiredKeys_def requiredComponents_def schema_try_def configSchema_def t_object_def
        t_string_def t_array_def)
  have r: "readConfigFile (exampleWorld shadowingConfig) ''site'' =
     (Returned shadowingConfig,
      [EsbuildBuild ''/home/user/site/quartz/quartz.config.js'',
       RequireFromString ''bundle'' ''/home/user/site/quartz/quartz.config.js''])"
    using example_path
    by (simp add: readConfigFile_def loadAndValidate_def checkVersion_def exampleWorld_def v
        getConfigFilePath_def Let_def)
       (simp add: shadowingConfig_def exampleConfiguration_def)
  have o: "\<not> hasOwn shadowingConfig ''plugins''
      \<and> \<not> hasOwn (propertyOf shadowingConfig ''components'') ''pageSingle''
      \<and> \<not> hasOwn (propertyOf shadowingConfig ''components'') ''pageList''
      \<and> \<not> hasOwn (propertyOf shadowingConfig ''components'') ''pageHome''
      \<and> \<not> hasOwn (propertyOf shadowingConfig ''components'') ''document''"
    by (simp add: shadowingConfig_def propertyOf_def)
  have f: "firstViolation shadowingConfig = Some (MissingKey ''plugins'')"
    by (simp add: shadowingConfig_def firstViolation_def)
  from r o f show ?thesis by simp
qed

text \<open>
  Claim C3: when the configuration file does not exist at the expected path,
  \<^verbatim>\<open>readConfigFile\<close> prints that it could not find the configuration together with the
  hint to run \<^verbatim>\<open>quartz new\<close>, and exits with status 1 (the specification's
  MissingConfigError); neither esbuild nor the module loader is called.
\<close>

theorem missing_file_exits_before_compiling:
  assumes "\<not> existsSync w (getConfigFilePath (cwd w) directory)"
  shows "readConfigFile w directory =
       (Exit 1,
        [ConsoleError [Styled Red ''Couldn't find Quartz configuration:'', Plain '' '',
                       Plain (getConfigFilePath (cwd w) directory)],
         ConsoleLog [Plain ''hint: you can initialize a new Quartz with `quartz new`'']])
     \<and> (\<forall>fp. EsbuildBuild fp \<notin> set (snd (readConfigFile w directory)))
     \<and> (\<forall>bundle fp. RequireFromString bundle fp \<notin> set (snd (readConfigFile w directory)))"
  using assms by (simp add: readConfigFile_def getConfigFilePath_def Let_def)

theorem missing_file_exits_before_compiling_witness:
  "\<not> existsSync (exampleWorld JNull) (getConfigFilePath (cwd (exampleWorld JNull)) ''blog'')
   \<and> fst (readConfigFile (exampleWorld JNull) ''blog'') = Exit 1
   \<and> EsbuildBuild ''/home/user/blog/quartz/quartz.config.js''
        \<notin> set (snd (readConfigFile (exampleWorld JNull) ''blog''))
   \<and> RequireFromString ''bundle'' ''/home/user/blog/quartz/quartz.config.js''
        \<notin> set (snd (readConfigFile (exampleWorld JNull) ''blog''))"
proof -
  have "getConfigFilePath ''/home/user'' ''blog'' = ''/home/user/blog/quartz/quartz.config.js''"
    by (simp add: getConfigFilePath_def path_resolve_def path_join_def path_normalize_def
        normalizeString_def QUARTZ_def QUARTZ_CONFIG_NAME_def)
  then have h: "\<not> existsSync (exampleWorld JNull) (getConfigFilePath (cwd (exampleWorld JNull)) ''blog'')"
    by (simp add: exampleWorld_def)
  from h missing_file_exits_before_compiling [OF h] show ?thesis
    by simp
qed

text \<open>
  Claim C4 says that for every candidate the validator reports the first violation in the
  order top-level keys, component slots, schema, and that a candidate with its top-level
  keys but without \<^verbatim>\<open>components.pageHome\<close> is told that the component \<^verbatim>\<open>pageHome\<close> is
  missing. That is what happens when \<^verbatim>\<open>components\<close> is an ordinary object. When
  \<^verbatim>\<open>components\<close> has no prototype the first violation is the same, but line 44 throws a
  TypeError and nothing is printed; so does line 36 on a candidate without a prototype
  whose first violation is the missing key \<^verbatim>\<open>plugins\<close>, which an ordinary candidate is
  told.
\<close>

theorem validator_throws_instead_of_reporting:
  "firstViolation (missingPageHome Ordinary) = Some (MissingComponent ''pageHome'')
   \<and> isValidConfig call (missingPageHome Ordinary) =
       (Normal False,
        [ConsoleLog
           [Styled Yellow ''Warning:'', Plain '' Configuration is missing required component `'',
            Plain ''pageHome'', Plain ''`'']])
   \<and> firstViolation (missingPageHome NullProto) = Some (MissingComponent ''pageHome'')
   \<and> isValidConfig call (missingPageHome NullProto) = (Throw TypeError, [])
   \<and> firstViolation (missingPlugins Ordinary) = Some (MissingKey ''plugins'')
   \<and> isValidConfig call (missingPlugins Ordinary) =
       (Normal False,
        [ConsoleLog
           [Styled Yellow ''Warning:'', Plain '' Configuration is missing required key `'',
            Plain ''plugins'', Plain ''`'']])
   \<and> firstViolation (missingPlugins NullProto) = Some (MissingKey ''plugins'')
   \<and> isValidConfig call (missingPlugins NullProto) = (Throw TypeError, [])"
proof -
  have 1: "firstViolation (missingPageHome kind) = Some (MissingComponent ''pageHome'')" for kind
    by (simp add: missingPageHome_def firstViolation_def propertyOf_def)
  have 2: "isValidConfig call (missingPageHome Ordinary) =
       (Normal False,
        [ConsoleLog
           [Styled Yellow ''Warning:'', Plain '' Configuration is missing required component `'',
            Plain ''pageHome'', Plain ''`'']])"
    by (simp add: missingPageHome_def isValidConfig_def requiredKeys_def requiredComponents_def)
  have 3: "isValidConfig call (missingPageHome NullProto) = (Throw TypeError, [])"
    by (simp add: missingPageHome_def isValidConfig_def requiredKeys_def requiredComponents_def)
  have 4: "firstViolation (missingPlugins kind) = Some (MissingKey ''plugins'')" for kind
    by (simp add: missingPlugins_def firstViolation_def)
  have 5: "isValidConfig call (missingPlugins Ordinary) =
       (Normal False,
        [ConsoleLog
           [Styled Yellow ''Warning:'', Plain '' Configuration is missing required key `'',
            Plain ''plugins'', Plain ''`'']])"
    by (simp add: missingPlugins_def isValidConfig_def requiredKeys_def)
  have 6: "isValidConfig call (missingPlugins NullProto) = (Throw TypeError, [])"
    by (simp add: missingPlugins_def isValidConfig_def requiredKeys_def)
  from 1 2 3 4 5 6 show ?thesis by simp
qed

lemma configSchema_Inl: "(\<exists>e. configSchema c = Inl e) \<longleftrightarrow> (\<forall>y. configSchema c \<noteq> Inr y)"
  by (cases "configSchema c") auto

text \<open>
  Claim C5: a \<^verbatim>\<open>configuration\<close> whose \<^verbatim>\<open>ignorePatterns\<close> is a string fails the schema check,
  and a candidate that passes the structural checks with such a \<^verbatim>\<open>configuration\<close> is
  told that the configuration does not match the schema; a \<^verbatim>\<open>configuration\<close> of the three
  fields whose \<^verbatim>\<open>ignorePatterns\<close> is the empty array passes.
\<close>

theorem ignorePatterns_must_be_an_array:
  "(get c ''ignorePatterns'' = Normal (JStr s) \<longrightarrow>
      (\<exists>e. schema_try configSchema c = Inl e)
      \<and> (answers cfg \<and> hasOwn cfg ''plugins'' \<and> hasOwn cfg ''configuration''
           \<and> hasOwn cfg ''components'' \<and> propertyOf cfg ''configuration'' = c
           \<and> answers (propertyOf cfg ''components'')
           \<and> list_all (hasOwn (propertyOf cfg ''components'')) requiredComponents
         \<longrightarrow> (\<exists>e. isValidConfig call cfg
                   = (Normal False, [ConsoleLog (warning (SchemaValidation e))]))))
   \<and> ((\<forall>f. kind \<noteq> Function f)
        \<and> set (map fst ps) \<subseteq> {''quartzVersion'', ''name'', ''ignorePatterns''}
        \<and> map_of ps ''quartzVersion'' = Some (JStr v) \<and> map_of ps ''name'' = Some (JStr n)
        \<and> map_of ps ''ignorePatterns'' = Some (JArr [])
      \<longrightarrow> schema_try configSchema (JObj kind ps) = Inr (JObj kind ps))"
proof -
  have rejected: "\<exists>e. configSchema c = Inl e" if g: "get c ''ignorePatterns'' = Normal (JStr s)"
  proof -
    have "configSchema c \<noteq> Inr y" for y
    proof
      assume "configSchema c = Inr y"
      then obtain kind ps pats where "c = JObj kind ps" "map_of ps ''ignorePatterns'' = Some (JArr pats)"
        unfolding configSchema_Inr by blast
      with g show False by simp
    qed
    then show ?thesis by (simp add: configSchema_Inl)
  qed
  have reported: "\<exists>e. isValidConfig call cfg
      = (Normal False, [ConsoleLog (warning (SchemaValidation e))])"
    if g: "get c ''ignorePatterns'' = Normal (JStr s)"
      and a: "answers cfg" "hasOwn cfg ''plugins''" "hasOwn cfg ''configuration''"
        "hasOwn cfg ''components''" "propertyOf cfg ''configuration'' = c"
        "answers (propertyOf cfg ''components'')"
        "list_all (hasOwn (propertyOf cfg ''components'')) requiredComponents"
  proof -
    from rejected [OF g] obtain e where "configSchema c = Inl e" ..
    with a have "firstViolation cfg = Some (SchemaValidation e)"
      by (simp add: firstViolation_def requiredComponents_def)
    moreover have "isValidConfig call cfg = report (firstViolation cfg)"
      using a by (intro isValidConfig_report) simp_all
    ultimately show ?thesis by simp
  qed
  have accepted: "schema_try configSchema (JObj kind ps) = Inr (JObj kind ps)"
    if "\<forall>f. kind \<noteq> Function f"
      "set (map fst ps) \<subseteq> {''quartzVersion'', ''name'', ''ignorePatterns''}"
      "map_of ps ''quartzVersion'' = Some (JStr v)" "map_of ps ''name'' = Some (JStr n)"
      "map_of ps ''ignorePatterns'' = Some (JArr [])"
    unfolding schema_try_def configSchema_Inr using that by auto
  show ?thesis
    using rejected reported accepted unfolding schema_try_def by blast
qed

theorem ignorePatterns_must_be_an_array_witness:
  "get (propertyOf patternsAsString ''configuration'') ''ignorePatterns'' = Normal (JStr ''private'')
   \<and> (\<exists>e. schema_try configSchema (propertyOf patternsAsString ''configuration'') = Inl e)
   \<and> (\<exists>e. isValidConfig (\<lambda>f receiver args. Normal JUndefined) patternsAsString
             = (Normal False, [ConsoleLog (warning (SchemaValidation e))]))
   \<and> schema_try configSchema (exampleConfiguration ''4.0.0'') = Inr (exampleConfiguration ''4.0.0'')"
proof -
  let ?c = "propertyOf patternsAsString ''configuration''"
  have g: "get ?c ''ignorePatterns'' = Normal (JStr ''private'')"
    by (simp add: patternsAsString_def propertyOf_def)
  have a: "answers patternsAsString \<and> hasOwn patternsAsString ''plugins''
      \<and> hasOwn patternsAsString ''configuration'' \<and> hasOwn patternsAsString ''components''
      \<and> propertyOf patternsAsString ''configuration'' = ?c
      \<and> answers (propertyOf patternsAsString ''components'')
      \<and> list_all (hasOwn (propertyOf patternsAsString ''components'')) requiredComponents"
    by (simp add: patternsAsString_def propertyOf_def exampleComponents_def requiredComponents_def)
  have b: "(\<forall>f. Ordinary \<noteq> Function f)
      \<and> set (map fst [(''quartzVersion'', JStr ''4.0.0''), (''name'', JStr ''My Site''),
            (''ignorePatterns'', JArr [])]) \<subseteq> {''quartzVersion'', ''name'', ''ignorePatterns''}
      \<and> map_of [(''quartzVersion'', JStr ''4.0.0''), (''name'', JStr ''My Site''),
            (''ignorePatterns'', JArr [])] ''quartzVersion'' = Some (JStr ''4.0.0'')
      \<and> map_of [(''quartzVersion'', JStr ''4.0.0''), (''name'', JStr ''My Site''),
            (''ignorePatterns'', JArr [])] ''name'' = Some (JStr ''My Site'')
      \<and> map_of [(''quartzVersion'', JStr ''4.0.0''), (''name'', JStr ''My Site''),
            (''ignorePatterns'', JArr [])] ''ignorePatterns'' = Some (JArr [])"
    by simp
  from ignorePatterns_must_be_an_array [of ?c "''private''" patternsAsString
      "\<lambda>f receiver args. Normal JUndefined" Ordinary
      "[(''quartzVersion'', JStr ''4.0.0''), (''name'', JStr ''My Site''), (''ignorePatterns'', JArr [])]"
      "''4.0.0''" "''My Site''"] g a b
  show ?thesis
    by (simp add: exampleConfiguration_def)
qed

text \<open>
  Claim C6 says that a \<^verbatim>\<open>configuration\<close> with the three required fields passes the schema
  check whatever else it contains. It does not: the schema is built without
  \<^verbatim>\<open>allowUnknown\<close>, and a fourth field is reported as an unexpected key.
\<close>

theorem extra_field_rejected:
  "get extraField ''quartzVersion'' = Normal (JStr ''4.0.0'')
   \<and> get extraField ''name'' = Normal (JStr ''My Site'')
   \<and> get extraField ''ignorePatterns'' = Normal (JArr [])
   \<and> schema_try configSchema extraField = Inl (ValidationError [] (UnexpectedKeys [''baseUrl'']))"
  by (simp add: extraField_def schema_try_def configSchema_def t_object_def)

text \<open>
  Claim C6 as amended: a \<^verbatim>\<open>configuration\<close> whose three required fields are well typed
  passes the schema check exactly when it has no other field; with another field the check
  fails and names the unexpected keys. The same shape built with \<^verbatim>\<open>allowUnknown\<close> would
  accept it.
\<close>

theorem schema_is_exact:
  assumes "\<forall>f. kind \<noteq> Function f"
    and "map_of ps ''quartzVersion'' = Some (JStr v)"
    and "map_of ps ''name'' = Some (JStr n)"
    and "map_of ps ''ignorePatterns'' = Some (JArr pats)"
    and "\<forall>p\<in>set pats. \<exists>s. p = JStr s"
  shows "(schema_try configSchema (JObj kind ps) = Inr (JObj kind ps)
          \<longleftrightarrow> set (map fst ps) \<subseteq> {''quartzVersion'', ''name'', ''ignorePatterns''})
     \<and> (\<not> set (map fst ps) \<subseteq> {''quartzVersion'', ''name'', ''ignorePatterns''} \<longrightarrow>
          schema_try configSchema (JObj kind ps)
            = Inl (ValidationError []
                (UnexpectedKeys
                  (filter (\<lambda>k. k \<notin> {''quartzVersion'', ''name'', ''ignorePatterns''})
                     (remdups (map fst ps))))))
     \<and> schema_try
          (t_object True
             [(''quartzVersion'', t_string), (''name'', t_string),
              (''ignorePatterns'', t_array t_string)])
          (JObj kind ps) = Inr (JObj kind ps)"
proof -
  have arr: "t_array t_string (JArr pats) = Inr (JArr pats)"
    using assms(5) by (simp add: t_array_string_Inr)
  have fields: "parseFields [(''quartzVersion'', t_string), (''name'', t_string),
        (''ignorePatterns'', t_array t_string)] ps = None"
    using assms(2-4) arr by (simp add: t_string_def)
  have 1: "schema_try configSchema (JObj kind ps) = Inr (JObj kind ps)
      \<longleftrightarrow> set (map fst ps) \<subseteq> {''quartzVersion'', ''name'', ''ignorePatterns''}"
    unfolding schema_try_def configSchema_Inr using assms by auto
  have nonempty: "filter (\<lambda>k. k \<notin> {''quartzVersion'', ''name'', ''ignorePatterns''})
        (remdups (map fst ps)) \<noteq> []"
    if "\<not> set (map fst ps) \<subseteq> {''quartzVersion'', ''name'', ''ignorePatterns''}"
    using that by (auto simp: filter_empty_conv)
  have 2: "schema_try configSchema (JObj kind ps)
      = Inl (ValidationError []
          (UnexpectedKeys
            (filter (\<lambda>k. k \<notin> {''quartzVersion'', ''name'', ''ignorePatterns''})
               (remdups (map fst ps)))))"
    if "\<not> set (map fst ps) \<subseteq> {''quartzVersion'', ''name'', ''ignorePatterns''}"
    using nonempty [OF that] assms(1)
    by (cases kind) (simp_all add: schema_try_def configSchema_def t_object_def)
  have 3: "schema_try
          (t_object True
             [(''quartzVersion'', t_string), (''name'', t_string),
              (''ignorePatterns'', t_array t_string)])
          (JObj kind ps) = Inr (JObj kind ps)"
    unfolding schema_try_def t_object_Inr using assms(1) fields by simp
  from 1 2 3 show ?thesis by blast
qed

theorem schema_is_exact_witness:
  "schema_try configSchema (exampleConfiguration ''4.0.0'') = Inr (exampleConfiguration ''4.0.0'')
   \<and> schema_try configSchema extraField = Inl (ValidationError [] (UnexpectedKeys [''baseUrl'']))
   \<and> schema_try
        (t_object True
           [(''quartzVersion'', t_string), (''name'', t_string),
            (''ignorePatterns'', t_array t_string)])
        extraField = Inr extraField"
proof -
  have a: "\<forall>f. Ordinary \<noteq> Function f" by simp
  have e: "\<forall>p\<in>set ([] :: jsval list). \<exists>s. p = JStr s" by simp
  have 1: "map_of [(''quartzVersion'', JStr ''4.0.0''), (''name'', JStr ''My Site''),
        (''ignorePatterns'', JArr [])] ''quartzVersion'' = Some (JStr ''4.0.0'')"
    and 2: "map_of [(''quartzVersion'', JStr ''4.0.0''), (''name'', JStr ''My Site''),
        (''ignorePatterns'', JArr [])] ''name'' = Some (JStr ''My Site'')"
    and 3: "map_of [(''quartzVersion'', JStr ''4.0.0''), (''name'', JStr ''My Site''),
        (''ignorePatterns'', JArr [])] ''ignorePatterns'' = Some (JArr [])"
    by simp_all
  have 4: "map_of [(''quartzVersion'', JStr ''4.0.0''), (''name'', JStr ''My Site''),
        (''ignorePatterns'', JArr []), (''baseUrl'', JStr ''example.org'')] ''quartzVersion''
        = Some (JStr ''4.0.0'')"
    and 5: "map_of [(''quartzVersion'', JStr ''4.0.0''), (''name'', JStr ''My Site''),
        (''ignorePatterns'', JArr []), (''baseUrl'', JStr ''example.org'')] ''name''
        = Some (JStr ''My Site'')"
    and 6: "map_of [(''quartzVersion'', JStr ''4.0.0''), (''name'', JStr ''My Site''),
        (''ignorePatterns'', JArr []), (''baseUrl'', JStr ''example.org'')] ''ignorePatterns''
        = Some (JArr [])"
    by simp_all
  from schema_is_exact [OF a 1 2 3 e] schema_is_exact [OF a 4 5 6 e] show ?thesis
    by (simp add: exampleConfiguration_def extraField_def)
qed

text \<open>
  Claim C7: once the file exists, compiles and loads, and the validator has accepted its
  default export, \<^verbatim>\<open>readConfigFile\<close> returns that export whatever its \<^verbatim>\<open>quartzVersion\<close>.
  The version is compared with the running tool's as a string: when they are equal nothing
  is printed, and when they differ a warning that names both versions and a hint are
  printed. Neither case fails.
\<close>

theorem version_mismatch_only_warns:
  assumes "existsSync w (getConfigFilePath (cwd w) directory)"
    and "esbuild_build w (getConfigFilePath (cwd w) directory) = Inr bundle"
    and "requireFromString w bundle (getConfigFilePath (cwd w) directory) = Inr exports"
    and "get exports ''default'' = Normal cfg"
    and "isValidConfig (callFunction w) cfg = (Normal True, printed)"
  shows "\<exists>quartzVersion.
       get (propertyOf cfg ''configuration'') ''quartzVersion'' = Normal (JStr quartzVersion)
     \<and> readConfigFile w directory =
         (Returned cfg,
          [EsbuildBuild (getConfigFilePath (cwd w) directory),
           RequireFromString bundle (getConfigFilePath (cwd w) directory)]
          @ (if quartzVersion = version w then []
             else [ConsoleLog
                     [Styled Yellow ''Warning:'', Plain '' version in configuration ('',
                      Interp (JStr quartzVersion),
                      Plain '') is different from current Quartz version ('',
                      Plain (version w), Plain ''). Proceed with caution!''],
                   ConsoleLog
                     [Plain ''hint: visit https://github.com/jackyzha0/quartz/blob/v4/config.ts to see the most up-to-date schema'']]))"
proof -
  from isValidConfig_accepted [OF assms(5)] obtain y where p: "printed = []"
    and g: "get cfg ''configuration'' = Normal (propertyOf cfg ''configuration'')"
    and "configSchema (propertyOf cfg ''configuration'') = Inr y"
    by blast
  then obtain kind ps qv where c: "propertyOf cfg ''configuration'' = JObj kind ps"
      "map_of ps ''quartzVersion'' = Some (JStr qv)"
    unfolding configSchema_Inr by blast
  then have q: "get (propertyOf cfg ''configuration'') ''quartzVersion'' = Normal (JStr qv)"
    by simp
  have "readConfigFile w directory =
      (Returned cfg,
       [EsbuildBuild (getConfigFilePath (cwd w) directory),
        RequireFromString bundle (getConfigFilePath (cwd w) directory)]
       @ (if qv = version w then [] else versionWarning (JStr qv) (version w)))"
    using assms(1-4) q g
    by (simp add: readConfigFile_def getConfigFilePath_def [symmetric] loadAndValidate_def
        checkVersion_def assms(5) p Let_def)
  with q show ?thesis
    by (auto simp: versionWarning_def)
qed

theorem version_mismatch_only_warns_witness:
  "readConfigFile (exampleWorld (exampleConfig ''3.9.0'')) ''site'' =
     (Returned (exampleConfig ''3.9.0''),
      [EsbuildBuild ''/home/user/site/quartz/quartz.config.js'',
       RequireFromString ''bundle'' ''/home/user/site/quartz/quartz.config.js'',
       ConsoleLog
         [Styled Yellow ''Warning:'', Plain '' version in configuration ('',
          Interp (JStr ''3.9.0''), Plain '') is different from current Quartz version ('',
          Plain ''4.0.0'', Plain ''). Proceed with caution!''],
       ConsoleLog
         [Plain ''hint: visit https://github.com/jackyzha0/quartz/blob/v4/config.ts to see the most up-to-date schema'']])
   \<and> readConfigFile (exampleWorld (exampleConfig ''4.0.0'')) ''site'' =
     (Returned (exampleConfig ''4.0.0''),
      [EsbuildBuild ''/home/user/site/quartz/quartz.config.js'',
       RequireFromString ''bundle'' ''/home/user/site/quartz/quartz.config.js''])"
proof -
  let ?fp = "''/home/user/site/quartz/quartz.config.js''"
  have run: "\<exists>quartzVersion.
       get (propertyOf (exampleConfig v) ''configuration'') ''quartzVersion'' = Normal (JStr quartzVersion)
     \<and> readConfigFile (exampleWorld (exampleConfig v)) ''site'' =
         (Returned (exampleConfig v),
          [EsbuildBuild ?fp, RequireFromString ''bundle'' ?fp]
          @ (if quartzVersion = ''4.0.0'' then []
             else [ConsoleLog
                     [Styled Yellow ''Warning:'', Plain '' version in configuration ('',
                      Interp (JStr quartzVersion),
                      Plain '') is different from current Quartz version ('',
                      Plain ''4.0.0'', Plain ''). Proceed with caution!''],
                   ConsoleLog
                     [Plain ''hint: visit https://github.com/jackyzha0/quartz/blob/v4/config.ts to see the most up-to-date schema'']]))"
    for v
  proof -
    let ?w = "exampleWorld (exampleConfig v)"
    have fp: "getConfigFilePath (cwd ?w) ''site'' = ?fp"
      by (simp add: exampleWorld_def example_path)
    have h1: "existsSync ?w (getConfigFilePath (cwd ?w) ''site'')"
      unfolding fp by (simp add: exampleWorld_def)
    have h2: "esbuild_build ?w (getConfigFilePath (cwd ?w) ''site'') = Inr ''bundle''"
      by (simp add: exampleWorld_def)
    have h3: "requireFromString ?w ''bundle'' (getConfigFilePath (cwd ?w) ''site'')
        = Inr (JObj Ordinary [(''default'', exampleConfig v)])"
      by (simp add: exampleWorld_def)
    have h4: "get (JObj Ordinary [(''default'', exampleConfig v)]) ''default'' = Normal (exampleConfig v)"
      by simp
    have ver: "version ?w = ''4.0.0''"
      by (simp add: exampleWorld_def)
    from version_mismatch_only_warns [OF h1 h2 h3 h4 example_valid]
    show ?thesis unfolding fp ver .
  qed
  have q: "get (propertyOf (exampleConfig v) ''configuration'') ''quartzVersion'' = Normal (JStr v)" for v
    by (simp add: exampleConfig_def exampleConfiguration_def propertyOf_def)
  from run [of "''3.9.0''"] run [of "''4.0.0''"] show ?thesis
    unfolding q by simp
qed

text \<open>
  Claim C9 says that the validator reports every violation as a diagnostic and never
  throws. On \<^verbatim>\<open>undefined\<close> (a module without a default export), on \<^verbatim>\<open>null\<close>, on an object
  without a prototype and on a candidate whose \<^verbatim>\<open>components\<close> is \<^verbatim>\<open>undefined\<close> the call of
  \<^verbatim>\<open>hasOwnProperty\<close> throws a TypeError before anything is printed, and \<^verbatim>\<open>readConfigFile\<close>
  rejects with it.
\<close>

theorem validator_throws_on_undefined:
  "isValidConfig call JUndefined = (Throw TypeError, [])
   \<and> isValidConfig call JNull = (Throw TypeError, [])
   \<and> isValidConfig call (JObj NullProto [(''plugins'', JArr [])]) = (Throw TypeError, [])
   \<and> isValidConfig call
        (JObj Ordinary
           [(''plugins'', JArr []), (''configuration'', exampleConfiguration ''4.0.0''),
            (''components'', JUndefined)]) = (Throw TypeError, [])
   \<and> readConfigFile (exampleWorld JUndefined) ''site'' =
        (Rejected TypeError,
         [EsbuildBuild ''/home/user/site/quartz/quartz.config.js'',
          RequireFromString ''bundle'' ''/home/user/site/quartz/quartz.config.js''])"
proof -
  have 1: "isValidConfig call JUndefined = (Throw TypeError, [])"
    by (simp add: isValidConfig_def requiredKeys_def)
  have 2: "isValidConfig call JNull = (Throw TypeError, [])"
    by (simp add: isValidConfig_def requiredKeys_def)
  have 3: "isValidConfig call (JObj NullProto [(''plugins'', JArr [])]) = (Throw TypeError, [])"
    by (simp add: isValidConfig_def requiredKeys_def)
  have 4: "isValidConfig call
        (JObj Ordinary
           [(''plugins'', JArr []), (''configuration'', exampleConfiguration ''4.0.0''),
            (''components'', JUndefined)]) = (Throw TypeError, [])"
    by (simp add: isValidConfig_def requiredKeys_def requiredComponents_def)
  have 5: "readConfigFile (exampleWorld JUndefined) ''site'' =
        (Rejected TypeError,
         [EsbuildBuild ''/home/user/site/quartz/quartz.config.js'',
          RequireFromString ''bundle'' ''/home/user/site/quartz/quartz.config.js''])"
    using example_path
    by (simp add: readConfigFile_def loadAndValidate_def exampleWorld_def isValidConfig_def
        requiredKeys_def getConfigFilePath_def Let_def)
  from 1 2 3 4 5 show ?thesis by simp
qed

lemma warning_inj: "warning d = warning d' \<Longrightarrow> d = d'"
  by (cases d; cases d') auto

section \<open>Properties of the templater\<close>

lemma getSubstitution_plain:
  "CHR ''$'' \<notin> set v \<Longrightarrow> getSubstitution matched preceding following v = v"
  by (induction matched preceding following v rule: getSubstitution.induct) auto

lemma indexOf_Some:
  "indexOf s pat = Some i \<Longrightarrow>
     s = take i s @ pat @ drop (i + length pat) s \<and> (\<forall>j<i. \<not> prefix pat (drop j s))"
proof (induction s arbitrary: i)
  case Nil
  then show ?case by (simp split: if_splits)
next
  case (Cons c cs)
  show ?case
  proof (cases "prefix pat (c # cs)")
    case True
    with Cons.prems have "i = 0" by simp
    with True show ?thesis by (auto simp: prefix_def)
  next
    case False
    with Cons.prems obtain i' where i': "indexOf cs pat = Some i'" "i = Suc i'"
      by auto
    from Cons.IH [OF i'(1)] have IH: "cs = take i' cs @ pat @ drop (i' + length pat) cs"
      "\<forall>j<i'. \<not> prefix pat (drop j cs)" by auto
    have "\<not> prefix pat (drop j (c # cs))" if "j < i" for j
      using that False IH(2) i'(2) by (cases j) auto
    with IH(1) i'(2) show ?thesis by simp
  qed
qed

lemma indexOf_None:
  "indexOf s pat = None \<Longrightarrow> \<not> prefix pat (drop j s)"
proof (induction s arbitrary: j)
  case Nil
  then show ?case by (simp split: if_splits)
next
  case (Cons c cs)
  then show ?case by (cases j) (auto split: if_splits)
qed

lemma indexOf_first:
  "\<forall>j<length pre. \<not> prefix pat (drop j (pre @ pat @ post)) \<Longrightarrow>
     indexOf (pre @ pat @ post) pat = Some (length pre)"
proof (induction pre)
  case Nil
  have "prefix pat (pat @ post)" by simp
  then show ?case by (cases "pat @ post") auto
next
  case (Cons c pre)
  from Cons.prems have "\<not> prefix pat (c # pre @ pat @ post)"
    by (metis append_Cons drop0 length_greater_0_conv list.discI)
  moreover have "\<forall>j<length pre. \<not> prefix pat (drop j (pre @ pat @ post))"
    using Cons.prems by (metis Suc_less_eq append_Cons drop_Suc_Cons length_Cons)
  ultimately show ?case using Cons.IH by simp
qed

lemma replace_plain:
  assumes "CHR ''$'' \<notin> set v" and "indexOf s pat = Some i"
  shows "replace s pat v = take i s @ v @ drop (i + length pat) s"
  using assms by (simp add: replace_def getSubstitution_plain)

lemma replace_absent: "indexOf s pat = None \<Longrightarrow> replace s pat v = s"
  by (simp add: replace_def)

lemma substitute_absent:
  "\<forall>(k, v)\<in>set entries. indexOf s (token k) = None \<Longrightarrow> substitute entries s = s"
  by (induction entries) (auto simp: replace_absent)

lemma substitute_append:
  "substitute (entries @ rest) s = substitute rest (substitute entries s)"
  by (induction entries arbitrary: s) auto

lemma templateQuartzFolder_writes:
  assumes "cp (path_join [dirname, ''template'']) (getQuartzPath workdir directory) fs = Inr copied"
    and "copied (getConfigFilePath workdir directory) = Some s"
  shows "templateQuartzFolder cp dirname workdir fs directory cfg
     = Inr (copied(getConfigFilePath workdir directory \<mapsto> substitute cfg s))"
  using assms by (simp add: templateQuartzFolder_def)

text \<open>
  Claim C8 says that each pair of the seed replaces the first occurrence of its token in
  the text of the copied file by its value, and that a key whose token is not in that text
  is ignored. Neither holds in general. The pairs are applied one after the other, so the
  token of \<^verbatim>\<open>quartzVersion\<close>, which is not in the template, is replaced once the value of
  \<^verbatim>\<open>name\<close> has brought it in; and \<^verbatim>\<open>replace\<close> expands \<^verbatim>\<open>$$\<close> in the value to one dollar sign.
\<close>

theorem substitution_not_literal_first_occurrence:
  "indexOf ''title: {{name}}'' (token ''quartzVersion'') = None
   \<and> substitute [(''name'', ''{{quartzVersion}}''), (''quartzVersion'', ''4.0.0'')] ''title: {{name}}''
       = ''title: 4.0.0''
   \<and> substitute [(''name'', ''Cash $$ Carry'')] ''title: {{name}}'' = ''title: Cash $ Carry''"
  by (simp add: replace_def token_def)

text \<open>
  Claim C8 as amended: the pairs of the seed are applied in order, each to the text the
  pairs before it have produced. A pair whose token does not occur in that text leaves it
  as it is, without an error. A pair whose token occurs, and whose value contains no
  dollar sign, replaces the first occurrence of the token by the value: the text before
  that occurrence, which contains no occurrence of the token, and the text after it, with
  every later occurrence and every other token, are kept as they are. A text in which no
  token of the seed occurs is returned unchanged.
\<close>

theorem substitute_replaces_first_occurrence:
  assumes "CHR ''$'' \<notin> set v"
  shows "(indexOf s (token k) = None \<longrightarrow>
            (\<forall>j. \<not> prefix (token k) (drop j s))
          \<and> substitute ((k, v) # entries) s = substitute entries s)
     \<and> (\<forall>i. indexOf s (token k) = Some i \<longrightarrow>
            s = take i s @ token k @ drop (i + length (token k)) s
          \<and> (\<forall>j<i. \<not> prefix (token k) (drop j s))
          \<and> substitute ((k, v) # entries) s
              = substitute entries (take i s @ v @ drop (i + length (token k)) s))
     \<and> ((\<forall>(k', v')\<in>set others. indexOf s (token k') = None) \<longrightarrow> substitute others s = s)"
  using assms
  by (auto simp: replace_absent replace_plain substitute_absent dest: indexOf_Some indexOf_None)

theorem substitute_replaces_first_occurrence_witness:
  "CHR ''$'' \<notin> set ''My Site''
   \<and> indexOf ''name: {{name}}, {{other}}, {{name}}'' (token ''name'') = Some 6
   \<and> substitute [(''name'', ''My Site'')] ''name: {{name}}, {{other}}, {{name}}''
       = ''name: My Site, {{other}}, {{name}}''
   \<and> indexOf ''name: {{name}}'' (token ''quartzVersion'') = None
   \<and> substitute [(''quartzVersion'', ''4.0.0'')] ''name: {{name}}'' = ''name: {{name}}''"
proof -
  have d: "CHR ''$'' \<notin> set ''My Site''" and d': "CHR ''$'' \<notin> set ''4.0.0''"
    by simp_all
  have i: "indexOf ''name: {{name}}, {{other}}, {{name}}'' (token ''name'') = Some 6"
    by (simp add: token_def)
  have n: "indexOf ''name: {{name}}'' (token ''quartzVersion'') = None"
    by (simp add: token_def)
  from substitute_replaces_first_occurrence
         [OF d, of "''name: {{name}}, {{other}}, {{name}}''" "''name''" "[]" "[]"] i
  have 1: "substitute [(''name'', ''My Site'')] ''name: {{name}}, {{other}}, {{name}}''
       = ''name: My Site, {{other}}, {{name}}''"
    by (simp add: token_def)
  from substitute_replaces_first_occurrence
         [OF d', of "''name: {{name}}''" "''quartzVersion''" "[]" "[]"] n
  have 2: "substitute [(''quartzVersion'', ''4.0.0'')] ''name: {{name}}'' = ''name: {{name}}''"
    by simp
  from d i n 1 2 show ?thesis by simp
qed

text \<open>
  Claim C10 as amended: substitution is sequential, each pair working on the text the pairs
  before it have produced. When the value of an earlier key contains the token of a later
  key, and that token is the first occurrence of it in the text at that point, it is
  replaced by the later key's value (for values without a dollar sign). When the later
  key's token does not occur in the original template, that key alone would change
  nothing, and processing the two pairs in the other order gives a different text: the
  result is not the independent replacement of the tokens of the template.
\<close>

theorem substitution_is_sequential:
  "substitute (entries @ rest) s = substitute rest (substitute entries s)
   \<and> (CHR ''$'' \<notin> set (a @ token k2 @ b) \<and> CHR ''$'' \<notin> set v2
       \<and> indexOf (pre @ token k1 @ post) (token k1) = Some (length pre)
       \<and> indexOf (pre @ a @ token k2 @ b @ post) (token k2) = Some (length pre + length a)
      \<longrightarrow> substitute [(k1, a @ token k2 @ b), (k2, v2)] (pre @ token k1 @ post)
            = pre @ a @ v2 @ b @ post
        \<and> (indexOf (pre @ token k1 @ post) (token k2) = None \<and> v2 \<noteq> token k2
           \<longrightarrow> replace (pre @ token k1 @ post) (token k2) v2 = pre @ token k1 @ post
             \<and> substitute [(k2, v2), (k1, a @ token k2 @ b)] (pre @ token k1 @ post)
                 = pre @ a @ token k2 @ b @ post
             \<and> substitute [(k1, a @ token k2 @ b), (k2, v2)] (pre @ token k1 @ post)
                 \<noteq> substitute [(k2, v2), (k1, a @ token k2 @ b)] (pre @ token k1 @ post)))"
proof -
  have seq: "substitute (entries @ rest) s = substitute rest (substitute entries s)"
    by (rule substitute_append)
  have inner: "substitute [(k1, a @ token k2 @ b), (k2, v2)] (pre @ token k1 @ post)
      = pre @ a @ v2 @ b @ post"
    and other: "indexOf (pre @ token k1 @ post) (token k2) = None \<Longrightarrow> v2 \<noteq> token k2 \<Longrightarrow>
        replace (pre @ token k1 @ post) (token k2) v2 = pre @ token k1 @ post
      \<and> substitute [(k2, v2), (k1, a @ token k2 @ b)] (pre @ token k1 @ post)
          = pre @ a @ token k2 @ b @ post
      \<and> substitute [(k1, a @ token k2 @ b), (k2, v2)] (pre @ token k1 @ post)
          \<noteq> substitute [(k2, v2), (k1, a @ token k2 @ b)] (pre @ token k1 @ post)"
    if d1: "CHR ''$'' \<notin> set (a @ token k2 @ b)" and d2: "CHR ''$'' \<notin> set v2"
      and i1: "indexOf (pre @ token k1 @ post) (token k1) = Some (length pre)"
      and i2: "indexOf (pre @ a @ token k2 @ b @ post) (token k2) = Some (length pre + length a)"
  proof -
    have r1: "replace (pre @ token k1 @ post) (token k1) (a @ token k2 @ b)
        = pre @ a @ token k2 @ b @ post"
      using replace_plain [OF d1 i1] by simp
    have r2: "replace (pre @ a @ token k2 @ b @ post) (token k2) v2 = pre @ a @ v2 @ b @ post"
      using replace_plain [OF d2 i2] by simp
    show inner: "substitute [(k1, a @ token k2 @ b), (k2, v2)] (pre @ token k1 @ post)
        = pre @ a @ v2 @ b @ post"
      by (simp add: r1 r2)
    show "replace (pre @ token k1 @ post) (token k2) v2 = pre @ token k1 @ post
      \<and> substitute [(k2, v2), (k1, a @ token k2 @ b)] (pre @ token k1 @ post)
          = pre @ a @ token k2 @ b @ post
      \<and> substitute [(k1, a @ token k2 @ b), (k2, v2)] (pre @ token k1 @ post)
          \<noteq> substitute [(k2, v2), (k1, a @ token k2 @ b)] (pre @ token k1 @ post)"
      if n: "indexOf (pre @ token k1 @ post) (token k2) = None" and ne: "v2 \<noteq> token k2"
    proof -
      have r0: "replace (pre @ token k1 @ post) (token k2) v2 = pre @ token k1 @ post"
        using n by (rule replace_absent)
      then have rev: "substitute [(k2, v2), (k1, a @ token k2 @ b)] (pre @ token k1 @ post)
          = pre @ a @ token k2 @ b @ post"
        by (simp add: r1)
      with r0 inner ne show ?thesis by simp
    qed
  qed
  from seq inner other show ?thesis by blast
qed

theorem substitution_is_sequential_witness:
  "substitute [(''name'', ''{{quartzVersion}} docs''), (''quartzVersion'', ''4.0.0'')] ''title: {{name}}!''
     = ''title: 4.0.0 docs!''
   \<and> replace ''title: {{name}}!'' (token ''quartzVersion'') ''4.0.0'' = ''title: {{name}}!''
   \<and> substitute [(''quartzVersion'', ''4.0.0''), (''name'', ''{{quartzVersion}} docs'')] ''title: {{name}}!''
     = ''title: {{quartzVersion}} docs!''"
proof -
  have h: "CHR ''$'' \<notin> set ([] @ token ''quartzVersion'' @ '' docs'') \<and> CHR ''$'' \<notin> set ''4.0.0''
       \<and> indexOf (''title: '' @ token ''name'' @ ''!'') (token ''name'') = Some (length ''title: '')
       \<and> indexOf (''title: '' @ [] @ token ''quartzVersion'' @ '' docs'' @ ''!'') (token ''quartzVersion'')
           = Some (length ''title: '' + length ([] :: string))"
    by (simp add: token_def)
  have n: "indexOf (''title: '' @ token ''name'' @ ''!'') (token ''quartzVersion'') = None
      \<and> ''4.0.0'' \<noteq> token ''quartzVersion''"
    by (simp add: token_def)
  have e1: "[] @ token ''quartzVersion'' @ '' docs'' = ''{{quartzVersion}} docs''"
    and e2: "''title: '' @ token ''name'' @ ''!'' = ''title: {{name}}!''"
    and e3: "''title: '' @ [] @ ''4.0.0'' @ '' docs'' @ ''!'' = ''title: 4.0.0 docs!''"
    and e4: "''title: '' @ [] @ token ''quartzVersion'' @ '' docs'' @ ''!''
        = ''title: {{quartzVersion}} docs!''"
    by (simp_all add: token_def)
  from substitution_is_sequential [of "[]" "[]" "[]" "[]" "''quartzVersion''" "'' docs''" "''4.0.0''"
      "''title: ''" "''name''" "''!''"] h n
  have "substitute [(''name'', [] @ token ''quartzVersion'' @ '' docs''), (''quartzVersion'', ''4.0.0'')]
        (''title: '' @ token ''name'' @ ''!'')
      = ''title: '' @ [] @ ''4.0.0'' @ '' docs'' @ ''!''
    \<and> replace (''title: '' @ token ''name'' @ ''!'') (token ''quartzVersion'') ''4.0.0''
      = ''title: '' @ token ''name'' @ ''!''
    \<and> substitute [(''quartzVersion'', ''4.0.0''), (''name'', [] @ token ''quartzVersion'' @ '' docs'')]
        (''title: '' @ token ''name'' @ ''!'')
      = ''title: '' @ [] @ token ''quartzVersion'' @ '' docs'' @ ''!''"
    by blast
  then show ?thesis
    unfolding e1 e2 e3 e4 .
qed

text \<open>
  Claim C10 says that a token inside a substituted value that matches a key processed
  later is itself replaced. Only the first occurrence of a token is replaced: here the
  value of \<^verbatim>\<open>quartzVersion\<close> brings in a second \<^verbatim>\<open>{{name}}\<close>, and the pass for \<^verbatim>\<open>name\<close>
  replaces the one of the template and leaves the one inside the substituted value.
\<close>

theorem inner_token_not_always_replaced:
  "substitute [(''quartzVersion'', ''{{name}}''), (''name'', ''My Site'')]
     ''name: {{name}}, version: {{quartzVersion}}''
   = ''name: My Site, version: {{name}}''"
  by (simp add: replace_def token_def)

section \<open>Properties of the paths\<close>

lemma splitSlash_nonempty: "splitSlash p \<noteq> []"
  by (induction p) (auto split: list.splits)

lemma splitSlash_append:
  "splitSlash (a @ CHR ''/'' # b) = splitSlash a @ splitSlash b"
proof (induction a)
  case Nil
  show ?case by simp
next
  case (Cons c a)
  obtain s ss where "splitSlash a = s # ss"
    using splitSlash_nonempty [of a] by (cases "splitSlash a") auto
  with Cons show ?case by simp
qed

lemma joinSlash_snoc: "xs \<noteq> [] \<Longrightarrow> joinSlash (xs @ [s]) = joinSlash xs @ ''/'' @ s"
  by (induction xs rule: joinSlash.induct) auto

lemma splitSlash_quartz:
  assumes "endsInQuartz p"
  shows "\<exists>segs. splitSlash p = segs @ [''quartz'']
     \<and> splitSlash (p @ ''/'') = segs @ [''quartz'', []]
     \<and> splitSlash (p @ ''/quartz.config.js'') = segs @ [''quartz'', ''quartz.config.js'']
     \<and> splitSlash (p @ ''/quartz.config.js/'') = segs @ [''quartz'', ''quartz.config.js'', []]"
proof -
  have q: "splitSlash ''quartz'' = [''quartz'']"
    and c: "splitSlash ''quartz.config.js'' = [''quartz.config.js'']"
    and e: "splitSlash [] = [[]]"
    by simp_all
  have app: "splitSlash (a @ ''/'' @ b) = splitSlash a @ splitSlash b" for a b
    using splitSlash_append [of a b] by simp
  from assms consider "p = ''quartz''" | z where "p = z @ ''/quartz''"
    unfolding endsInQuartz_def by blast
  then show ?thesis
  proof cases
    case 1
    have "splitSlash (''quartz'' @ ''/'' @ []) = [''quartz'', []]"
      and "splitSlash (''quartz'' @ ''/'' @ ''quartz.config.js'') = [''quartz'', ''quartz.config.js'']"
      and "splitSlash (''quartz'' @ ''/'' @ ''quartz.config.js'' @ ''/'' @ [])
        = [''quartz'', ''quartz.config.js'', []]"
      unfolding app q c e by simp_all
    with 1 q show ?thesis by (intro exI [of _ "[]"]) simp
  next
    case 2
    have "splitSlash (z @ ''/'' @ ''quartz'') = splitSlash z @ [''quartz'']"
      and "splitSlash (z @ ''/'' @ ''quartz'' @ ''/'' @ []) = splitSlash z @ [''quartz'', []]"
      and "splitSlash (z @ ''/'' @ ''quartz'' @ ''/'' @ ''quartz.config.js'')
        = splitSlash z @ [''quartz'', ''quartz.config.js'']"
      and "splitSlash (z @ ''/'' @ ''quartz'' @ ''/'' @ ''quartz.config.js'' @ ''/'' @ [])
        = splitSlash z @ [''quartz'', ''quartz.config.js'', []]"
      unfolding app q c e by simp_all
    with 2 show ?thesis by (intro exI [of _ "splitSlash z"]) simp
  qed
qed

lemma joinSlash_quartz: "endsInQuartz (joinSlash (xs @ [''quartz'']))"
proof (cases "xs = []")
  case True
  then show ?thesis by (simp add: endsInQuartz_def)
next
  case False
  then have "joinSlash (xs @ [''quartz'']) = joinSlash xs @ ''/quartz''"
    by (simp add: joinSlash_snoc)
  then show ?thesis unfolding endsInQuartz_def by blast
qed

lemma normalizeString_quartz:
  assumes "endsInQuartz p"
  shows "endsInQuartz (normalizeString p allow)
     \<and> normalizeString (p @ ''/'') allow = normalizeString p allow
     \<and> normalizeString (p @ ''/quartz.config.js'') allow
         = normalizeString p allow @ ''/quartz.config.js''
     \<and> normalizeString (p @ ''/quartz.config.js/'') allow
         = normalizeString p allow @ ''/quartz.config.js''"
proof -
  from splitSlash_quartz [OF assms] obtain segs where
    s: "splitSlash p = segs @ [''quartz'']"
      "splitSlash (p @ ''/'') = segs @ [''quartz'', []]"
      "splitSlash (p @ ''/quartz.config.js'') = segs @ [''quartz'', ''quartz.config.js'']"
      "splitSlash (p @ ''/quartz.config.js/'') = segs @ [''quartz'', ''quartz.config.js'', []]"
    by blast
  define r where "r = foldl (normalizeStep allow) [] segs"
  have n: "normalizeString p allow = joinSlash (rev r @ [''quartz''])"
    by (simp add: normalizeString_def s r_def)
  have "joinSlash (rev r @ [''quartz'', ''quartz.config.js''])
      = joinSlash (rev r @ [''quartz'']) @ ''/quartz.config.js''"
    using joinSlash_snoc [of "rev r @ [''quartz'']" "''quartz.config.js''"] by simp
  then show ?thesis
    using joinSlash_quartz [of "rev r"]
    by (simp add: normalizeString_def s r_def [symmetric])
qed

lemma endsInQuartz_simps:
  "endsInQuartz p \<Longrightarrow> p \<noteq> []"
  "endsInQuartz p \<Longrightarrow> last p \<noteq> CHR ''/''"
  "endsInQuartz p \<Longrightarrow> hd (p @ q) = hd p"
  "endsInQuartz p \<Longrightarrow> endsInQuartz (w @ ''/'' @ p)"
  "endsInQuartz p \<Longrightarrow> endsInQuartz (''/'' @ p)"
  unfolding endsInQuartz_def by (auto simp: hd_append)

lemma path_normalize_quartz:
  assumes "endsInQuartz p"
  shows "endsInQuartz (path_normalize p)
     \<and> path_normalize (p @ ''/quartz.config.js'') = path_normalize p @ ''/quartz.config.js''"
proof -
  let ?abs = "hd p = CHR ''/''"
  note n = normalizeString_quartz [OF assms, of "\<not> ?abs"]
  from n have e: "endsInQuartz (normalizeString p (\<not> ?abs))" by simp
  then have ne: "normalizeString p (\<not> ?abs) \<noteq> []"
    by (rule endsInQuartz_simps)
  have 1: "path_normalize p = (if ?abs then ''/'' else []) @ normalizeString p (\<not> ?abs)"
    using assms ne by (simp add: path_normalize_def Let_def endsInQuartz_simps)
  have 2: "path_normalize (p @ ''/quartz.config.js'')
      = (if ?abs then ''/'' else []) @ normalizeString p (\<not> ?abs) @ ''/quartz.config.js''"
    using assms ne n by (simp add: path_normalize_def Let_def endsInQuartz_simps hd_append)
  from e have "endsInQuartz ((if ?abs then ''/'' else []) @ normalizeString p (\<not> ?abs))"
    using endsInQuartz_simps(5) [of "normalizeString p (\<not> ?abs)"]
    by (cases ?abs) simp_all
  with 1 2 show ?thesis by simp
qed

lemma path_join_quartz:
  "endsInQuartz (path_join [directory, QUARTZ])
   \<and> path_join [directory, QUARTZ, QUARTZ_CONFIG_NAME]
       = path_join [directory, QUARTZ] @ ''/quartz.config.js''"
proof (cases "directory = []")
  case True
  have "endsInQuartz ''quartz''" by (simp add: endsInQuartz_def)
  from path_normalize_quartz [OF this] True show ?thesis
    by (simp add: path_join_def QUARTZ_def QUARTZ_CONFIG_NAME_def)
next
  case False
  have "endsInQuartz (directory @ ''/quartz'')" unfolding endsInQuartz_def by blast
  from path_normalize_quartz [OF this] False show ?thesis
    by (simp add: path_join_def QUARTZ_def QUARTZ_CONFIG_NAME_def)
qed

lemma resolveLoop_single:
  "p \<noteq> [] \<Longrightarrow>
     resolveLoop (rev [p] @ [workdir]) [] =
       (if hd p = CHR ''/'' then (p @ ''/'', True)
        else if workdir = [] then (p @ ''/'', False)
        else (workdir @ ''/'' @ p @ ''/'', hd workdir = CHR ''/''))"
  by simp

lemma path_resolve_quartz:
  assumes "endsInQuartz p"
  shows "path_resolve workdir [p @ ''/quartz.config.js'']
     = path_resolve workdir [p] @ ''/quartz.config.js''"
proof -
  have ne: "p \<noteq> []" "p @ ''/quartz.config.js'' \<noteq> []"
    and hd: "hd (p @ ''/quartz.config.js'') = hd p"
    using assms by (simp_all add: endsInQuartz_simps)
  have norm: "normalizeString (q @ ''/'') allow \<noteq> []
      \<and> normalizeString (q @ ''/quartz.config.js/'') allow
          = normalizeString (q @ ''/'') allow @ ''/quartz.config.js''"
    if "endsInQuartz q" for q allow
    using normalizeString_quartz [OF that, of allow] by (auto dest: endsInQuartz_simps(1))
  have w: "endsInQuartz (workdir @ ''/'' @ p)"
    using assms by (rule endsInQuartz_simps)
  show ?thesis
    unfolding path_resolve_def resolveLoop_single [OF ne(1)] resolveLoop_single [OF ne(2)] hd
    using norm [OF assms] norm [OF w]
    by (simp add: Let_def)
qed

text \<open>
  Claim C2: for every project root (and every working directory of the process), the
  path of the configuration file is the path of the configuration directory followed by
  \<^verbatim>\<open>/quartz.config.js\<close>. Both functions are total functions of the root and the working
  directory. Paths are POSIX paths.
\<close>

theorem config_file_is_in_quartz_directory:
  "getConfigFilePath workdir directory = getQuartzPath workdir directory @ ''/quartz.config.js''"
  unfolding getConfigFilePath_def getQuartzPath_def
  using path_join_quartz [of directory] path_resolve_quartz [of "path_join [directory, QUARTZ]" workdir]
  by simp

theorem config_file_is_in_quartz_directory_witness:
  "getQuartzPath ''/home/user'' ''../site/./docs'' = ''/home/site/docs/quartz''
   \<and> getConfigFilePath ''/home/user'' ''../site/./docs'' = ''/home/site/docs/quartz/quartz.config.js''"
proof -
  have q: "getQuartzPath ''/home/user'' ''../site/./docs'' = ''/home/site/docs/quartz''"
    by (simp add: getQuartzPath_def path_resolve_def path_join_def path_normalize_def
        normalizeString_def QUARTZ_def)
  from config_file_is_in_quartz_directory [of "''/home/user''" "''../site/./docs''"] q
  show ?thesis by simp
qed

end
